theory Spec2Isabelle
  imports Main "HOL-Library.Word"
begin

unbundle bit_operations_syntax

section \<open>The software cryptographic service provider (bccsp/sw/impl.go)\<close>

text \<open>
  A shallow embedding of \<^verbatim>\<open>KeyGen\<close>, \<open>KeyDeriv\<close> and \<open>KeyImport\<close> of
  \<^verbatim>\<open>bccsp/sw/impl.go\<close>. Go interfaces whose implementations live outside that
  file (elliptic curves, hash functions, the key store, the random source, the DER
  decoders) are records of functions; a Go return pair \<open>(key, error)\<close> is a pair of
  options; a run-time panic is an outcome of its own.
\<close>

subsection \<open>Bytes, big integers, panics\<close>

type_synonym byte = "8 word"

type_synonym entropy = "byte list"

datatype 'a outcome = Return 'a | Panic string

text \<open>\<^verbatim>\<open>new(big.Int).SetBytes(buf)\<close>: the bytes read as a big-endian unsigned integer.\<close>

definition SetBytes :: "byte list \<Rightarrow> int" where
  "SetBytes buf = foldl (\<lambda>z b. z * 256 + uint b) 0 buf"

text \<open>\<^verbatim>\<open>x.Bytes()\<close>: the absolute value of \<open>x\<close> as a big-endian byte slice without
  leading zero bytes (the empty slice for zero).\<close>

fun natBytes :: "nat \<Rightarrow> byte list" where
  "natBytes n = (if n = 0 then [] else natBytes (n div 256) @ [of_nat (n mod 256)])"

declare natBytes.simps [simp del]

definition Bytes :: "int \<Rightarrow> byte list" where
  "Bytes x = natBytes (nat \<bar>x\<bar>)"

text \<open>\<^verbatim>\<open>z.Mod(x, y)\<close> of math/big: Euclidean modulus, a division-by-zero run-time
  panic when \<open>y = 0\<close>.\<close>

definition bigMod :: "int \<Rightarrow> int \<Rightarrow> int outcome" where
  "bigMod x y = (if y = 0 then Panic ''division by zero'' else Return (x mod \<bar>y\<bar>))"

text \<open>The slice expression \<^verbatim>\<open>s[:n]\<close> on a slice whose capacity is its length (as
  is the slice \<^verbatim>\<open>mac.Sum(nil)\<close> that the code applies it to): a run-time panic
  when \<open>n\<close> is out of range.\<close>

definition sliceTo :: "'a list \<Rightarrow> int \<Rightarrow> 'a list outcome" where
  "sliceTo s n = (if 0 \<le> n \<and> n \<le> int (length s) then Return (take (nat n) s)
                  else Panic ''slice bounds out of range'')"

subsection \<open>Hash functions and HMAC (hash.Hash, crypto/hmac)\<close>

text \<open>A hash constructor \<^verbatim>\<open>func() hash.Hash\<close>, by the digest it computes of a whole
  message and its \<^verbatim>\<open>Size()\<close> and \<^verbatim>\<open>BlockSize()\<close>.\<close>

record hashFn =
  hashSum :: "byte list \<Rightarrow> byte list"
  hashSize :: nat
  hashBlockSize :: nat

text \<open>\<^verbatim>\<open>hmac.New(h, key)\<close> prepares the key block: a key longer than the block size is
  hashed first, then \<^verbatim>\<open>copy\<close> writes it into a zeroed block.\<close>

definition hmacKeyBlock :: "hashFn \<Rightarrow> byte list \<Rightarrow> byte list" where
  "hmacKeyBlock h key =
     (let key' = (if hashBlockSize h < length key then hashSum h key else key)
      in take (hashBlockSize h) (key' @ replicate (hashBlockSize h) 0))"

text \<open>\<^verbatim>\<open>mac := hmac.New(h, key); mac.Write(msg); mac.Sum(nil)\<close>.\<close>

definition hmacSum :: "hashFn \<Rightarrow> byte list \<Rightarrow> byte list \<Rightarrow> byte list" where
  "hmacSum h key msg =
     (let ipad = map (\<lambda>b. b XOR 0x36) (hmacKeyBlock h key);
          opad = map (\<lambda>b. b XOR 0x5c) (hmacKeyBlock h key)
      in hashSum h (opad @ hashSum h (ipad @ msg)))"

subsection \<open>Elliptic curves and keys\<close>

type_synonym point = "int \<times> int"

text \<open>The interface \<^verbatim>\<open>elliptic.Curve\<close>, restricted to what the code calls:
  \<^verbatim>\<open>Params().N\<close> (with the base point of \<^verbatim>\<open>Params()\<close>), \<^verbatim>\<open>IsOnCurve\<close>,
  \<^verbatim>\<open>Add\<close> and \<^verbatim>\<open>ScalarBaseMult\<close>. A point is its pair of affine coordinates.\<close>

record curve =
  N :: int
  Gx :: int
  Gy :: int
  IsOnCurve :: "point \<Rightarrow> bool"
  Add :: "point \<Rightarrow> point \<Rightarrow> point"
  ScalarBaseMult :: "byte list \<Rightarrow> point"

record ecdsa_PublicKey =
  Curve :: curve
  X :: int
  Y :: int

record ecdsa_PrivateKey =
  PublicKey :: ecdsa_PublicKey
  D :: int

datatype rsa_PublicKey = rsa_PublicKey (rsaN: int) (rsaE: int)

datatype rsa_PrivateKey = rsa_PrivateKey (rsaPublicKey: rsa_PublicKey) (rsaD: int)

text \<open>The implementations of \<^verbatim>\<open>bccsp.Key\<close>. The struct declarations are outside
  impl.go; \<^verbatim>\<open>aesPrivateKey\<close> is built there from a byte slice and a boolean.
  Modelled from the spec: the declaration of \<^verbatim>\<open>aesPrivateKey\<close> is missing; a
  symmetric key "wraps a raw byte sequence; carries a boolean exportable flag".\<close>

datatype key =
    ecdsaPublicKey ecdsa_PublicKey
  | ecdsaPrivateKey ecdsa_PrivateKey
  | aesPrivateKey (privKey: "byte list") (exportable: bool)
  | rsaPrivateKey rsa_PrivateKey
  | rsaPublicKey rsa_PublicKey
  | otherKey string

subsection \<open>Options\<close>

text \<open>The options types of package bccsp that the switches name, and one more
  constructor for any other implementation of the interface.
  Modelled from the spec: the method \<^verbatim>\<open>Ephemeral()\<close> is declared outside impl.go;
  "each options variant carries an ephemeral flag governing whether the resulting key is
  persisted". It is the field \<open>Temporary\<close> here, as in
  \<^verbatim>\<open>&bccsp.ECDSAGoPublicKeyImportOpts{Temporary: opts.Ephemeral()}\<close>.\<close>

datatype KeyGenOpts =
    ECDSAKeyGenOpts (genEphemeral: bool)
  | ECDSAP256KeyGenOpts (genEphemeral: bool)
  | ECDSAP384KeyGenOpts (genEphemeral: bool)
  | AESKeyGenOpts (genEphemeral: bool)
  | AES256KeyGenOpts (genEphemeral: bool)
  | AES192KeyGenOpts (genEphemeral: bool)
  | AES128KeyGenOpts (genEphemeral: bool)
  | RSAKeyGenOpts (genEphemeral: bool)
  | RSA1024KeyGenOpts (genEphemeral: bool)
  | RSA2048KeyGenOpts (genEphemeral: bool)
  | RSA3072KeyGenOpts (genEphemeral: bool)
  | RSA4096KeyGenOpts (genEphemeral: bool)
  | otherKeyGenOpts (genEphemeral: bool)

datatype KeyDerivOpts =
    ECDSAReRandKeyOpts (derivEphemeral: bool) (ExpansionValue: "byte list")
  | HMACTruncated256AESDeriveKeyOpts (derivEphemeral: bool) (Argument: "byte list")
  | HMACDeriveKeyOpts (derivEphemeral: bool) (Argument: "byte list")
  | otherKeyDerivOpts (derivEphemeral: bool)

datatype KeyImportOpts =
    AES256ImportKeyOpts (importEphemeral: bool)
  | HMACImportKeyOpts (importEphemeral: bool)
  | ECDSAPKIXPublicKeyImportOpts (importEphemeral: bool)
  | ECDSAPrivateKeyImportOpts (importEphemeral: bool)
  | ECDSAGoPublicKeyImportOpts (importEphemeral: bool)
  | RSAGoPublicKeyImportOpts (importEphemeral: bool)
  | X509PublicKeyImportOpts (importEphemeral: bool)
  | otherKeyImportOpts (importEphemeral: bool)

text \<open>The values of type \<^verbatim>\<open>interface{}\<close> that \<^verbatim>\<open>KeyImport\<close> and the DER decoders
  handle. A certificate is represented by its field \<^verbatim>\<open>PublicKey\<close>.\<close>

datatype raw =
    rawNil
  | rawBytes "byte list"
  | rawECDSAPublicKey ecdsa_PublicKey
  | rawECDSAPrivateKey ecdsa_PrivateKey
  | rawRSAPublicKey rsa_PublicKey
  | rawRSAPrivateKey rsa_PrivateKey
  | rawX509Certificate raw
  | rawOther

subsection \<open>Errors\<close>

text \<open>One constructor for each error message of the three functions, with the values
  that the message formats. Where the message prints \<^verbatim>\<open>opts.Algorithm()\<close> (a label
  declared in package bccsp) the constructor carries the options value.\<close>

datatype error =
    InvalidOptsNil
      \<comment> \<open>Invalid Opts parameter. It must not be nil.\<close>
  | InvalidKeyNil
      \<comment> \<open>Invalid Key. It must not be nil.\<close>
  | InvalidRawNil
      \<comment> \<open>Invalid raw. Cannot be nil\<close>
  | FailedGenerating string string
      \<comment> \<open>Failed generating (ECDSA, ECDSA P256, AES 128, ...) key [cause]\<close>
  | UnrecognizedKeyGenOpts KeyGenOpts
      \<comment> \<open>Unrecognized KeyGenOpts provided [opts.Algorithm()]\<close>
  | FailedStoringKey KeyGenOpts string
      \<comment> \<open>Failed storing key [opts.Algorithm()]. [cause]\<close>
  | FailedIsOnCurve
      \<comment> \<open>Failed temporary public key IsOnCurve check.\<close>
  | FailedStoring string string
      \<comment> \<open>Failed storing (ECDSA, AES, RSA publi) key [cause]\<close>
  | UnrecognizedKeyDerivOpts KeyDerivOpts
      \<comment> \<open>Unrecognized KeyDerivOpts provided [opts.Algorithm()]\<close>
  | KeyTypeNotRecognized key
      \<comment> \<open>Key type not recognized [k]\<close>
  | ExpectedByteArray string
      \<comment> \<open>[options type] Invalid raw material. Expected byte array.\<close>
  | InvalidKeyLength nat
      \<comment> \<open>[AES256ImportKeyOpts] Invalid Key Length [len]. Must be 32 bytes\<close>
  | InvalidRawEmpty string
      \<comment> \<open>[options type] Invalid raw. It must not be nil.\<close>
  | FailedConverting string
      \<comment> \<open>Failed converting PKIX to ECDSA public key [cause]\<close>
  | FailedCasting
      \<comment> \<open>Failed casting to ECDSA public key. Invalid raw material.\<close>
  | ExpectedGoKey string
      \<comment> \<open>[options type] Invalid raw material. Expected *ecdsa.PublicKey (*rsa.PublicKey, *x509.Certificate).\<close>
  | CertificateKeyNotRecognized
      \<comment> \<open>Certificate public key type not recognized. Supported keys: [ECDSA, RSA]\<close>
  | UnsupportedKeyImportOpts KeyImportOpts
      \<comment> \<open>Unsupported 'KeyImportOptions' provided [opts]\<close>

type_synonym ret = "key option \<times> error option"

subsection \<open>Collaborators and the provider\<close>

text \<open>Library functions that impl.go calls and that are defined outside it. The ones
  that read \<^verbatim>\<open>rand.Reader\<close> take the bytes they read as an argument.\<close>

record lib =
  P256 :: curve
  P384 :: curve
  ecdsa_GenerateKey :: "curve \<Rightarrow> entropy \<Rightarrow> string + ecdsa_PrivateKey"
  GetRandomBytes :: "int \<Rightarrow> entropy \<Rightarrow> string + byte list"
  rsa_GenerateKey :: "entropy \<Rightarrow> int \<Rightarrow> string + rsa_PrivateKey"
  DERToPublicKey :: "byte list \<Rightarrow> string + raw"
  DERToPrivateKey :: "byte list \<Rightarrow> string + raw"

text \<open>\<^verbatim>\<open>bccsp.KeyStore\<close>: \<^verbatim>\<open>StoreKey\<close> returns an error or nil and changes the
  store's own state.\<close>

record 's KeyStore =
  StoreKey :: "key \<Rightarrow> 's \<Rightarrow> string option \<times> 's"

record config =
  ellipticCurve :: curve
  hashFunction :: hashFn
  aesBitLength :: int
  rsaBitLength :: int

record 's impl =
  conf :: config
  ks :: "'s KeyStore"

text \<open>The state a call runs in: the state of the key store and the log of the
  arguments of the \<^verbatim>\<open>StoreKey\<close> calls made so far.\<close>

record 's world =
  store :: 's
  storeCalls :: "key list"

text \<open>\<^verbatim>\<open>err = csp.ks.StoreKey(k)\<close>.\<close>

definition ksStoreKey :: "'s impl \<Rightarrow> key \<Rightarrow> 's world \<Rightarrow> string option \<times> 's world" where
  "ksStoreKey csp k w =
     (case StoreKey (ks csp) k (store w) of
        (err, s) \<Rightarrow> (err, \<lparr>store = s, storeCalls = storeCalls w @ [k]\<rparr>))"

text \<open>The block that follows every key construction:
  \<^verbatim>\<open>if !opts.Ephemeral() { err = csp.ks.StoreKey(k); if err != nil { return nil, ... } }; return k, nil\<close>.\<close>

definition storeAndReturn ::
  "'s impl \<Rightarrow> bool \<Rightarrow> (string \<Rightarrow> error) \<Rightarrow> key \<Rightarrow> 's world \<Rightarrow> ret \<times> 's world" where
  "storeAndReturn csp ephemeral wrap k w =
     (if \<not> ephemeral then
        (case ksStoreKey csp k w of
           (Some err, w') \<Rightarrow> ((None, Some (wrap err)), w')
         | (None, w') \<Rightarrow> ((Some k, None), w'))
      else ((Some k, None), w))"

subsection \<open>KeyGen\<close>

text \<open>The type switch of \<^verbatim>\<open>KeyGen\<close>: the generated key, or the error returned.\<close>

fun KeyGenSwitch :: "lib \<Rightarrow> config \<Rightarrow> KeyGenOpts \<Rightarrow> entropy \<Rightarrow> error + key" where
  "KeyGenSwitch l c (ECDSAKeyGenOpts t) r =
     (case ecdsa_GenerateKey l (ellipticCurve c) r of
        Inl err \<Rightarrow> Inl (FailedGenerating ''ECDSA'' err)
      | Inr lowLevelKey \<Rightarrow> Inr (ecdsaPrivateKey lowLevelKey))"
| "KeyGenSwitch l c (ECDSAP256KeyGenOpts t) r =
     (case ecdsa_GenerateKey l (P256 l) r of
        Inl err \<Rightarrow> Inl (FailedGenerating ''ECDSA P256'' err)
      | Inr lowLevelKey \<Rightarrow> Inr (ecdsaPrivateKey lowLevelKey))"
| "KeyGenSwitch l c (ECDSAP384KeyGenOpts t) r =
     (case ecdsa_GenerateKey l (P384 l) r of
        Inl err \<Rightarrow> Inl (FailedGenerating ''ECDSA P384'' err)
      | Inr lowLevelKey \<Rightarrow> Inr (ecdsaPrivateKey lowLevelKey))"
| "KeyGenSwitch l c (AESKeyGenOpts t) r =
     (case GetRandomBytes l (aesBitLength c) r of
        Inl err \<Rightarrow> Inl (FailedGenerating ''AES'' err)
      | Inr lowLevelKey \<Rightarrow> Inr (aesPrivateKey lowLevelKey False))"
| "KeyGenSwitch l c (AES256KeyGenOpts t) r =
     (case GetRandomBytes l 32 r of
        Inl err \<Rightarrow> Inl (FailedGenerating ''AES 256'' err)
      | Inr lowLevelKey \<Rightarrow> Inr (aesPrivateKey lowLevelKey False))"
| "KeyGenSwitch l c (AES192KeyGenOpts t) r =
     (case GetRandomBytes l 24 r of
        Inl err \<Rightarrow> Inl (FailedGenerating ''AES 192'' err)
      | Inr lowLevelKey \<Rightarrow> Inr (aesPrivateKey lowLevelKey False))"
| "KeyGenSwitch l c (AES128KeyGenOpts t) r =
     (case GetRandomBytes l 16 r of
        Inl err \<Rightarrow> Inl (FailedGenerating ''AES 128'' err)
      | Inr lowLevelKey \<Rightarrow> Inr (aesPrivateKey lowLevelKey False))"
| "KeyGenSwitch l c (RSAKeyGenOpts t) r =
     (case rsa_GenerateKey l r (rsaBitLength c) of
        Inl err \<Rightarrow> Inl (FailedGenerating ''RSA'' err)
      | Inr lowLevelKey \<Rightarrow> Inr (rsaPrivateKey lowLevelKey))"
| "KeyGenSwitch l c (RSA1024KeyGenOpts t) r =
     (case rsa_GenerateKey l r 1024 of
        Inl err \<Rightarrow> Inl (FailedGenerating ''RSA 1024'' err)
      | Inr lowLevelKey \<Rightarrow> Inr (rsaPrivateKey lowLevelKey))"
| "KeyGenSwitch l c (RSA2048KeyGenOpts t) r =
     (case rsa_GenerateKey l r 2048 of
        Inl err \<Rightarrow> Inl (FailedGenerating ''RSA 2048'' err)
      | Inr lowLevelKey \<Rightarrow> Inr (rsaPrivateKey lowLevelKey))"
| "KeyGenSwitch l c (RSA3072KeyGenOpts t) r =
     (case rsa_GenerateKey l r 3072 of
        Inl err \<Rightarrow> Inl (FailedGenerating ''RSA 3072'' err)
      | Inr lowLevelKey \<Rightarrow> Inr (rsaPrivateKey lowLevelKey))"
| "KeyGenSwitch l c (RSA4096KeyGenOpts t) r =
     (case rsa_GenerateKey l r 4096 of
        Inl err \<Rightarrow> Inl (FailedGenerating ''RSA 4096'' err)
      | Inr lowLevelKey \<Rightarrow> Inr (rsaPrivateKey lowLevelKey))"
| "KeyGenSwitch l c (otherKeyGenOpts t) r = Inl (UnrecognizedKeyGenOpts (otherKeyGenOpts t))"

definition KeyGen ::
  "lib \<Rightarrow> 's impl \<Rightarrow> KeyGenOpts option \<Rightarrow> entropy \<Rightarrow> 's world \<Rightarrow> ret \<times> 's world" where
  "KeyGen l csp opts r w =
     (case opts of
        None \<Rightarrow> ((None, Some InvalidOptsNil), w)
      | Some opts' \<Rightarrow>
          (case KeyGenSwitch l (conf csp) opts' r of
             Inl err \<Rightarrow> ((None, Some err), w)
           | Inr k \<Rightarrow> storeAndReturn csp (genEphemeral opts') (FailedStoringKey opts') k w))"

subsection \<open>KeyDeriv\<close>

text \<open>The scalar of a re-randomization:
  \<^verbatim>\<open>k = SetBytes(ExpansionValue()); n := N - 1; k.Mod(k, n); k.Add(k, one)\<close>.\<close>

definition reRandScalar :: "curve \<Rightarrow> byte list \<Rightarrow> int outcome" where
  "reRandScalar c e =
     (case bigMod (SetBytes e) (N c - 1) of
        Panic p \<Rightarrow> Panic p
      | Return k \<Rightarrow> Return (k + 1))"

text \<open>The case \<^verbatim>\<open>*bccsp.ECDSAReRandKeyOpts\<close> under \<^verbatim>\<open>*ecdsaPublicKey\<close>, up to the
  construction of \<^verbatim>\<open>reRandomizedKey\<close>.\<close>

definition reRandPublicKey :: "ecdsa_PublicKey \<Rightarrow> byte list \<Rightarrow> (error + ecdsa_PublicKey) outcome" where
  "reRandPublicKey pub e =
     (case reRandScalar (Curve pub) e of
        Panic p \<Rightarrow> Panic p
      | Return k \<Rightarrow>
          (let temp = ScalarBaseMult (Curve pub) (Bytes k);
               tempSK = Add (Curve pub) (X pub, Y pub) temp;
               isOn = IsOnCurve (Curve pub) tempSK
           in if \<not> isOn then Return (Inl FailedIsOnCurve)
              else Return (Inr \<lparr>Curve = Curve pub, X = fst tempSK, Y = snd tempSK\<rparr>)))"

text \<open>The case \<^verbatim>\<open>*bccsp.ECDSAReRandKeyOpts\<close> under \<^verbatim>\<open>*ecdsaPrivateKey\<close>.\<close>

definition reRandPrivateKey :: "ecdsa_PrivateKey \<Rightarrow> byte list \<Rightarrow> (error + ecdsa_PrivateKey) outcome" where
  "reRandPrivateKey priv e =
     (case reRandScalar (Curve (PublicKey priv)) e of
        Panic p \<Rightarrow> Panic p
      | Return k \<Rightarrow>
          (case bigMod (D priv + k) (N (Curve (PublicKey priv))) of
             Panic p \<Rightarrow> Panic p
           | Return d \<Rightarrow>
               (let temp = ScalarBaseMult (Curve (PublicKey priv)) (Bytes k);
                    tempSK = Add (Curve (PublicKey priv))
                               (X (PublicKey priv), Y (PublicKey priv)) temp;
                    isOn = IsOnCurve (Curve (PublicKey priv)) tempSK
                in if \<not> isOn then Return (Inl FailedIsOnCurve)
                   else Return (Inr \<lparr>PublicKey = \<lparr>Curve = Curve (PublicKey priv),
                                                   X = fst tempSK, Y = snd tempSK\<rparr>,
                                     D = d\<rparr>))))"

definition returned :: "ret \<times> 's world \<Rightarrow> ret outcome \<times> 's world" where
  "returned rw = (Return (fst rw), snd rw)"

definition KeyDeriv ::
  "'s impl \<Rightarrow> key option \<Rightarrow> KeyDerivOpts option \<Rightarrow> 's world \<Rightarrow> ret outcome \<times> 's world" where
  "KeyDeriv csp k opts w =
     (case k of
        None \<Rightarrow> (Return (None, Some InvalidKeyNil), w)
      | Some k' \<Rightarrow>
          (case k' of
             ecdsaPublicKey ecdsaK \<Rightarrow>
               (case opts of
                  None \<Rightarrow> (Return (None, Some InvalidOptsNil), w)
                | Some opts' \<Rightarrow>
                    (case opts' of
                       ECDSAReRandKeyOpts t e \<Rightarrow>
                         (case reRandPublicKey ecdsaK e of
                            Panic p \<Rightarrow> (Panic p, w)
                          | Return (Inl err) \<Rightarrow> (Return (None, Some err), w)
                          | Return (Inr tempSK) \<Rightarrow>
                              returned (storeAndReturn csp (derivEphemeral opts')
                                          (FailedStoring ''ECDSA'') (ecdsaPublicKey tempSK) w))
                     | _ \<Rightarrow> (Return (None, Some (UnrecognizedKeyDerivOpts opts')), w)))
           | ecdsaPrivateKey ecdsaK \<Rightarrow>
               (case opts of
                  None \<Rightarrow> (Return (None, Some InvalidOptsNil), w)
                | Some opts' \<Rightarrow>
                    (case opts' of
                       ECDSAReRandKeyOpts t e \<Rightarrow>
                         (case reRandPrivateKey ecdsaK e of
                            Panic p \<Rightarrow> (Panic p, w)
                          | Return (Inl err) \<Rightarrow> (Return (None, Some err), w)
                          | Return (Inr tempSK) \<Rightarrow>
                              returned (storeAndReturn csp (derivEphemeral opts')
                                          (FailedStoring ''ECDSA'') (ecdsaPrivateKey tempSK) w))
                     | _ \<Rightarrow> (Return (None, Some (UnrecognizedKeyDerivOpts opts')), w)))
           | aesPrivateKey aesK ex \<Rightarrow>
               (case opts of
                  None \<Rightarrow> (Return (None, Some InvalidOptsNil), w)
                | Some opts' \<Rightarrow>
                    (case opts' of
                       HMACTruncated256AESDeriveKeyOpts t arg \<Rightarrow>
                         (case sliceTo (hmacSum (hashFunction (conf csp)) aesK arg)
                                 (aesBitLength (conf csp)) of
                            Panic p \<Rightarrow> (Panic p, w)
                          | Return mac \<Rightarrow>
                              returned (storeAndReturn csp (derivEphemeral opts')
                                          (FailedStoring ''ECDSA'') (aesPrivateKey mac False) w))
                     | HMACDeriveKeyOpts t arg \<Rightarrow>
                         returned (storeAndReturn csp (derivEphemeral opts')
                                     (FailedStoring ''ECDSA'')
                                     (aesPrivateKey (hmacSum (hashFunction (conf csp)) aesK arg) True)
                                     w)
                     | _ \<Rightarrow> (Return (None, Some (UnrecognizedKeyDerivOpts opts')), w)))
           | _ \<Rightarrow> (Return (None, Some (KeyTypeNotRecognized k')), w)))"

subsection \<open>KeyImport\<close>

function KeyImport ::
  "lib \<Rightarrow> 's impl \<Rightarrow> raw \<Rightarrow> KeyImportOpts option \<Rightarrow> 's world \<Rightarrow> ret \<times> 's world" where
  "KeyImport l csp raw opts w =
     (case raw of
        rawNil \<Rightarrow> ((None, Some InvalidRawNil), w)
      | _ \<Rightarrow>
     (case opts of
        None \<Rightarrow> ((None, Some InvalidOptsNil), w)
      | Some opts' \<Rightarrow>
     (case opts' of
        AES256ImportKeyOpts t \<Rightarrow>
          (case raw of
             rawBytes aesRaw \<Rightarrow>
               (if length aesRaw \<noteq> 32
                then ((None, Some (InvalidKeyLength (length aesRaw))), w)
                else storeAndReturn csp (importEphemeral opts') (FailedStoring ''AES'')
                       (aesPrivateKey aesRaw False) w)
           | _ \<Rightarrow> ((None, Some (ExpectedByteArray ''AES256ImportKeyOpts'')), w))
      | HMACImportKeyOpts t \<Rightarrow>
          (case raw of
             rawBytes aesRaw \<Rightarrow>
               (if length aesRaw = 0
                then ((None, Some (InvalidRawEmpty ''HMACImportKeyOpts'')), w)
                else storeAndReturn csp (importEphemeral opts') (FailedStoring ''AES'')
                       (aesPrivateKey aesRaw False) w)
           | _ \<Rightarrow> ((None, Some (ExpectedByteArray ''HMACImportKeyOpts'')), w))
      | ECDSAPKIXPublicKeyImportOpts t \<Rightarrow>
          (case raw of
             rawBytes der \<Rightarrow>
               (if length der = 0
                then ((None, Some (InvalidRawEmpty ''ECDSAPKIXPublicKeyImportOpts'')), w)
                else
                  (case DERToPublicKey l der of
                     Inl err \<Rightarrow> ((None, Some (FailedConverting err)), w)
                   | Inr lowLevelKey \<Rightarrow>
                       (case lowLevelKey of
                          rawECDSAPublicKey ecdsaPK \<Rightarrow>
                            storeAndReturn csp (importEphemeral opts') (FailedStoring ''ECDSA'')
                              (ecdsaPublicKey ecdsaPK) w
                        | _ \<Rightarrow> ((None, Some FailedCasting), w))))
           | _ \<Rightarrow> ((None, Some (ExpectedByteArray ''ECDSAPKIXPublicKeyImportOpts'')), w))
      | ECDSAPrivateKeyImportOpts t \<Rightarrow>
          (case raw of
             rawBytes der \<Rightarrow>
               (if length der = 0
                then ((None, Some (InvalidRawEmpty ''ECDSADERPrivateKeyImportOpts'')), w)
                else
                  (case DERToPrivateKey l der of
                     Inl err \<Rightarrow> ((None, Some (FailedConverting err)), w)
                   | Inr lowLevelKey \<Rightarrow>
                       (case lowLevelKey of
                          rawECDSAPrivateKey ecdsaSK \<Rightarrow>
                            storeAndReturn csp (importEphemeral opts') (FailedStoring ''ECDSA'')
                              (ecdsaPrivateKey ecdsaSK) w
                        | _ \<Rightarrow> ((None, Some FailedCasting), w))))
           | _ \<Rightarrow> ((None, Some (ExpectedByteArray ''ECDSADERPrivateKeyImportOpts'')), w))
      | ECDSAGoPublicKeyImportOpts t \<Rightarrow>
          (case raw of
             rawECDSAPublicKey lowLevelKey \<Rightarrow>
               storeAndReturn csp (importEphemeral opts') (FailedStoring ''ECDSA'')
                 (ecdsaPublicKey lowLevelKey) w
           | _ \<Rightarrow> ((None, Some (ExpectedGoKey ''ECDSAGoPublicKeyImportOpts'')), w))
      | RSAGoPublicKeyImportOpts t \<Rightarrow>
          (case raw of
             rawRSAPublicKey lowLevelKey \<Rightarrow>
               storeAndReturn csp (importEphemeral opts') (FailedStoring ''RSA publi'')
                 (rsaPublicKey lowLevelKey) w
           | _ \<Rightarrow> ((None, Some (ExpectedGoKey ''RSAGoPublicKeyImportOpts'')), w))
      | X509PublicKeyImportOpts t \<Rightarrow>
          (case raw of
             rawX509Certificate pk \<Rightarrow>
               (case pk of
                  rawECDSAPublicKey _ \<Rightarrow>
                    KeyImport l csp pk
                      (Some (ECDSAGoPublicKeyImportOpts (importEphemeral opts'))) w
                | rawRSAPublicKey _ \<Rightarrow>
                    KeyImport l csp pk
                      (Some (RSAGoPublicKeyImportOpts (importEphemeral opts'))) w
                | _ \<Rightarrow> ((None, Some CertificateKeyNotRecognized), w))
           | _ \<Rightarrow> ((None, Some (ExpectedGoKey ''X509PublicKeyImportOpts'')), w))
      | otherKeyImportOpts t \<Rightarrow> ((None, Some (UnsupportedKeyImportOpts opts')), w))))"
  by pat_completeness auto

termination
  by (relation "measure (\<lambda>(l, csp, raw, opts, w). size raw)") auto

declare KeyImport.simps [simp del]

subsection \<open>Correct curve arithmetic\<close>

text \<open>The affine-coordinate interface of \<^verbatim>\<open>elliptic.Curve\<close> writes the point at
  infinity as \<open>(0, 0)\<close>.\<close>

definition infinity :: point where
  "infinity = (0, 0)"

definition inGroup :: "curve \<Rightarrow> point \<Rightarrow> bool" where
  "inGroup c p \<longleftrightarrow> IsOnCurve c p \<or> p = infinity"

text \<open>The multiple \<open>k\<cdot>p\<close> by repeated addition.\<close>

primrec scalarMult :: "(point \<Rightarrow> point \<Rightarrow> point) \<Rightarrow> nat \<Rightarrow> point \<Rightarrow> point" where
  "scalarMult add 0 p = infinity"
| "scalarMult add (Suc k) p = add (scalarMult add k p) p"

text \<open>What "correct curve parameters and arithmetic" means for the part of the interface
  the code uses: the points of the curve with the point at infinity are closed under
  \<open>Add\<close>, which is associative and has the point at infinity as neutral element;
  \<open>ScalarBaseMult\<close> of a byte string is the multiple of the base point by the integer
  the bytes encode; the base point is on the curve and the order \<open>N\<close> sends it to
  the point at infinity.\<close>

definition curveArithOk :: "curve \<Rightarrow> bool" where
  "curveArithOk c \<longleftrightarrow>
     2 \<le> N c \<and>
     IsOnCurve c (Gx c, Gy c) \<and>
     (\<forall>p q. inGroup c p \<longrightarrow> inGroup c q \<longrightarrow> inGroup c (Add c p q)) \<and>
     (\<forall>p. inGroup c p \<longrightarrow> Add c p infinity = p \<and> Add c infinity p = p) \<and>
     (\<forall>p q r. inGroup c p \<longrightarrow> inGroup c q \<longrightarrow> inGroup c r \<longrightarrow>
        Add c (Add c p q) r = Add c p (Add c q r)) \<and>
     (\<forall>b. ScalarBaseMult c b = scalarMult (Add c) (nat (SetBytes b)) (Gx c, Gy c)) \<and>
     scalarMult (Add c) (nat (N c)) (Gx c, Gy c) = infinity"

text \<open>A private key whose public point belongs to its scalar: \<open>Q = d\<cdot>G\<close>.\<close>

definition keyPairOk :: "ecdsa_PrivateKey \<Rightarrow> bool" where
  "keyPairOk priv \<longleftrightarrow>
     0 \<le> D priv \<and>
     (X (PublicKey priv), Y (PublicKey priv)) =
       ScalarBaseMult (Curve (PublicKey priv)) (Bytes (D priv))"

text \<open>The scalar \<open>k = (e mod (n - 1)) + 1\<close> of the specification.\<close>

definition expansionScalar :: "curve \<Rightarrow> byte list \<Rightarrow> int" where
  "expansionScalar c e = SetBytes e mod (N c - 1) + 1"

subsection \<open>A small curve, a small hash and two key stores\<close>

text \<open>The curve \<open>y\<^sup>2 = x\<^sup>3 - 3x + 1\<close> over the field of 5 elements: six affine points,
  group order 7, base point \<open>(1, 2)\<close>; arithmetic in affine coordinates with \<open>(0, 0)\<close>
  for the point at infinity.\<close>

definition smallInv :: "int \<Rightarrow> int" where
  "smallInv a = (a * a * a) mod 5"

definition smallIsOnCurve :: "point \<Rightarrow> bool" where
  "smallIsOnCurve p =
     (case p of (x, y) \<Rightarrow>
        0 \<le> x \<and> x < 5 \<and> 0 \<le> y \<and> y < 5 \<and> (y * y) mod 5 = (x * x * x - 3 * x + 1) mod 5)"

definition smallAdd :: "point \<Rightarrow> point \<Rightarrow> point" where
  "smallAdd p q =
     (case p of (x1, y1) \<Rightarrow> case q of (x2, y2) \<Rightarrow>
        if x1 = 0 \<and> y1 = 0 then q
        else if x2 = 0 \<and> y2 = 0 then p
        else if x1 = x2 \<and> (y1 + y2) mod 5 = 0 then (0, 0)
        else
          (let lam = (if x1 = x2 then (3 * x1 * x1 - 3) * smallInv (2 * y1)
                      else (y2 - y1) * smallInv (x2 - x1)) mod 5;
               x3 = (lam * lam - x1 - x2) mod 5
           in (x3, (lam * (x1 - x3) - y1) mod 5)))"

definition smallCurve :: curve where
  "smallCurve =
     \<lparr>N = 7, Gx = 1, Gy = 2, IsOnCurve = smallIsOnCurve, Add = smallAdd,
      ScalarBaseMult = (\<lambda>b. scalarMult smallAdd (nat (SetBytes b)) (1, 2))\<rparr>"

text \<open>The key pair with scalar 3 on the small curve: \<open>3\<cdot>(1, 2) = (0, 1)\<close>.\<close>

definition smallPublicKey :: ecdsa_PublicKey where
  "smallPublicKey = \<lparr>Curve = smallCurve, X = 0, Y = 1\<rparr>"

definition smallPrivateKey :: ecdsa_PrivateKey where
  "smallPrivateKey = \<lparr>PublicKey = smallPublicKey, D = 3\<rparr>"

text \<open>A hash function with digests of 4 bytes and blocks of 8 bytes.\<close>

definition smallHash :: hashFn where
  "smallHash =
     \<lparr>hashSum = (\<lambda>m. [of_nat (length m), foldl (+) 0 m, foldl (XOR) 0 m, 0x2a]),
      hashSize = 4, hashBlockSize = 8\<rparr>"

definition smallConf :: config where
  "smallConf = \<lparr>ellipticCurve = smallCurve, hashFunction = smallHash,
                aesBitLength = 2, rsaBitLength = 1024\<rparr>"

definition smallLib :: lib where
  "smallLib =
     \<lparr>P256 = smallCurve, P384 = smallCurve,
      ecdsa_GenerateKey = (\<lambda>c r. Inr smallPrivateKey),
      GetRandomBytes = (\<lambda>n r. if n < 0 then Inl ''Len must be larger than 0''
                               else Inr (take (nat n) (r @ replicate (nat n) 0))),
      rsa_GenerateKey = (\<lambda>r bits. Inr (rsa_PrivateKey (rsa_PublicKey 3233 17) 2753)),
      DERToPublicKey = (\<lambda>der. Inl ''asn1: syntax error''),
      DERToPrivateKey = (\<lambda>der. Inl ''asn1: syntax error'')\<rparr>"

text \<open>A key store that keeps every key, and one whose \<^verbatim>\<open>StoreKey\<close> always fails.\<close>

definition listStore :: "(key list) KeyStore" where
  "listStore = \<lparr>StoreKey = (\<lambda>k s. (None, s @ [k]))\<rparr>"

definition failingStore :: "(key list) KeyStore" where
  "failingStore = \<lparr>StoreKey = (\<lambda>k s. (Some ''read-only key store'', s))\<rparr>"

definition listCsp :: "(key list) impl" where
  "listCsp = \<lparr>conf = smallConf, ks = listStore\<rparr>"

definition failingCsp :: "(key list) impl" where
  "failingCsp = \<lparr>conf = smallConf, ks = failingStore\<rparr>"

definition emptyWorld :: "(key list) world" where
  "emptyWorld = \<lparr>store = [], storeCalls = []\<rparr>"

text \<open>The points of the small curve, with the point at infinity first.\<close>

definition smallPoints :: "point list" where
  "smallPoints = [(0, 0), (0, 1), (0, 4), (1, 2), (1, 3), (3, 2), (3, 3)]"

subsection \<open>The dispatch of KeyDeriv, in the words of the specification\<close>

text \<open>The key variants that have a branch of their own in \<^verbatim>\<open>KeyDeriv\<close>.\<close>

definition derivableKey :: "key \<Rightarrow> bool" where
  "derivableKey k =
     (case k of ecdsaPublicKey _ \<Rightarrow> True | ecdsaPrivateKey _ \<Rightarrow> True
      | aesPrivateKey _ _ \<Rightarrow> True | _ \<Rightarrow> False)"

text \<open>The supported combinations: an EC private or EC public key with re-randomization
  options, or a symmetric key with one of the two HMAC-derivation options.\<close>

definition supportedDerivation :: "key \<Rightarrow> KeyDerivOpts \<Rightarrow> bool" where
  "supportedDerivation k opts =
     (case k of
        ecdsaPublicKey _ \<Rightarrow> (case opts of ECDSAReRandKeyOpts _ _ \<Rightarrow> True | _ \<Rightarrow> False)
      | ecdsaPrivateKey _ \<Rightarrow> (case opts of ECDSAReRandKeyOpts _ _ \<Rightarrow> True | _ \<Rightarrow> False)
      | aesPrivateKey _ _ \<Rightarrow>
          (case opts of HMACTruncated256AESDeriveKeyOpts _ _ \<Rightarrow> True
           | HMACDeriveKeyOpts _ _ \<Rightarrow> True | _ \<Rightarrow> False)
      | _ \<Rightarrow> False)"

subsection \<open>The re-randomized key, in the words of the specification\<close>

text \<open>The new public point \<open>Q' = Q + k\<cdot>G\<close>, with \<open>k\<cdot>G\<close> the scalar multiplication of the
  base point by \<open>k = (e mod (n - 1)) + 1\<close>.\<close>

definition derivedPoint :: "ecdsa_PublicKey \<Rightarrow> byte list \<Rightarrow> point" where
  "derivedPoint pub e =
     Add (Curve pub) (X pub, Y pub)
       (ScalarBaseMult (Curve pub) (Bytes (expansionScalar (Curve pub) e)))"

definition derivedPublicKey :: "ecdsa_PublicKey \<Rightarrow> byte list \<Rightarrow> ecdsa_PublicKey" where
  "derivedPublicKey pub e =
     \<lparr>Curve = Curve pub, X = fst (derivedPoint pub e), Y = snd (derivedPoint pub e)\<rparr>"

text \<open>For a private key, additionally the new scalar \<open>d' = (d + k) mod n\<close>.\<close>

definition derivedPrivateKey :: "ecdsa_PrivateKey \<Rightarrow> byte list \<Rightarrow> ecdsa_PrivateKey" where
  "derivedPrivateKey priv e =
     \<lparr>PublicKey = derivedPublicKey (PublicKey priv) e,
      D = (D priv + expansionScalar (Curve (PublicKey priv)) e) mod N (Curve (PublicKey priv))\<rparr>"
section \<open>Big integers and bytes\<close>



lemma SetBytes_append: "SetBytes (bs @ [b]) = SetBytes bs * 256 + uint b"
  by (simp add: SetBytes_def)

lemma SetBytes_natBytes: "SetBytes (natBytes n) = int n"
proof (induction n rule: natBytes.induct)
  case (1 n)
  show ?case
  proof (cases "n = 0")
    case True then show ?thesis by (simp add: natBytes.simps SetBytes_def)
  next
    case False
    have "SetBytes (natBytes n) = SetBytes (natBytes (n div 256)) * 256 + uint (of_nat (n mod 256) :: byte)"
      using False by (subst natBytes.simps) (simp add: SetBytes_append)
    also have "\<dots> = int (n div 256) * 256 + int (n mod 256)"
      using 1[OF False] by (simp add: uint_nat unat_of_nat)
    finally show ?thesis by (simp add: zdiv_int zmod_int)
  qed
qed

lemma SetBytes_Bytes: "0 \<le> x \<Longrightarrow> SetBytes (Bytes x) = x"
  by (simp add: Bytes_def SetBytes_natBytes)
section \<open>The small curve has correct arithmetic\<close>


lemma small_range: "0 \<le> (x::int) \<Longrightarrow> x < 5 \<Longrightarrow> x = 0 \<or> x = 1 \<or> x = 2 \<or> x = 3 \<or> x = 4"
  by arith

lemma smallIsOnCurve_points: "smallIsOnCurve p \<Longrightarrow> p \<in> set smallPoints"
proof -
  assume a: "smallIsOnCurve p"
  obtain x y where p: "p = (x, y)" by (cases p)
  from a p have r: "0 \<le> x" "x < 5" "0 \<le> y" "y < 5"
    and e: "(y * y) mod 5 = (x * x * x - 3 * x + 1) mod 5"
    by (simp_all add: smallIsOnCurve_def)
  from small_range[OF r(1,2)] small_range[OF r(3,4)] e
  show ?thesis unfolding p smallPoints_def by auto
qed

lemma inGroup_small: "inGroup smallCurve p \<longleftrightarrow> p \<in> set smallPoints"
proof
  assume "inGroup smallCurve p"
  then show "p \<in> set smallPoints"
    using smallIsOnCurve_points[of p]
    by (auto simp: inGroup_def smallCurve_def infinity_def smallPoints_def)
next
  assume "p \<in> set smallPoints"
  then show "inGroup smallCurve p"
    by (auto simp: inGroup_def smallCurve_def infinity_def smallPoints_def smallIsOnCurve_def)
qed

lemma small_closed: "\<forall>p\<in>set smallPoints. \<forall>q\<in>set smallPoints. smallAdd p q \<in> set smallPoints"
  by code_simp

lemma small_neutral: "\<forall>p\<in>set smallPoints. smallAdd p (0, 0) = p \<and> smallAdd (0, 0) p = p"
  by code_simp

lemma small_assoc: "\<forall>p\<in>set smallPoints. \<forall>q\<in>set smallPoints. \<forall>r\<in>set smallPoints.
    smallAdd (smallAdd p q) r = smallAdd p (smallAdd q r)"
  by code_simp

lemma small_order: "scalarMult smallAdd 7 (1, 2) = (0, 0)"
  by code_simp

lemma smallCurve_ok: "curveArithOk smallCurve"
  unfolding curveArithOk_def inGroup_small
  using small_closed small_neutral small_assoc small_order
  by (simp add: smallCurve_def infinity_def smallIsOnCurve_def)

section \<open>Consequences of correct curve arithmetic\<close>


lemma ok_closed: "curveArithOk c \<Longrightarrow> inGroup c p \<Longrightarrow> inGroup c q \<Longrightarrow> inGroup c (Add c p q)"
  unfolding curveArithOk_def by blast

lemma ok_neutral_right: "curveArithOk c \<Longrightarrow> inGroup c p \<Longrightarrow> Add c p infinity = p"
  unfolding curveArithOk_def by blast

lemma ok_neutral_left: "curveArithOk c \<Longrightarrow> inGroup c p \<Longrightarrow> Add c infinity p = p"
  unfolding curveArithOk_def by blast

lemma ok_assoc: "curveArithOk c \<Longrightarrow> inGroup c p \<Longrightarrow> inGroup c q \<Longrightarrow> inGroup c r \<Longrightarrow>
    Add c (Add c p q) r = Add c p (Add c q r)"
  unfolding curveArithOk_def by blast

lemma ok_baseMult: "curveArithOk c \<Longrightarrow>
    ScalarBaseMult c b = scalarMult (Add c) (nat (SetBytes b)) (Gx c, Gy c)"
  unfolding curveArithOk_def by blast

lemma ok_order: "curveArithOk c \<Longrightarrow> scalarMult (Add c) (nat (N c)) (Gx c, Gy c) = infinity"
  unfolding curveArithOk_def by blast

lemma ok_N: "curveArithOk c \<Longrightarrow> 2 \<le> N c"
  unfolding curveArithOk_def by blast

lemma inGroup_infinity: "inGroup c infinity"
  by (simp add: inGroup_def)

lemma inGroup_base: "curveArithOk c \<Longrightarrow> inGroup c (Gx c, Gy c)"
  by (simp add: curveArithOk_def inGroup_def)

lemma scalarMult_inGroup:
  assumes "curveArithOk c"
  shows "inGroup c (scalarMult (Add c) k (Gx c, Gy c))"
proof (induction k)
  case 0
  show ?case by (simp add: inGroup_infinity)
next
  case (Suc k)
  show ?case using ok_closed[OF assms Suc inGroup_base[OF assms]] by simp
qed

lemma scalarMult_add:
  assumes ok: "curveArithOk c"
  shows "scalarMult (Add c) (a + b) (Gx c, Gy c) =
         Add c (scalarMult (Add c) a (Gx c, Gy c)) (scalarMult (Add c) b (Gx c, Gy c))"
proof (induction b)
  case 0
  show ?case using ok_neutral_right[OF ok scalarMult_inGroup[OF ok, of a]] by simp
next
  case (Suc b)
  have "scalarMult (Add c) (a + Suc b) (Gx c, Gy c) =
        Add c (Add c (scalarMult (Add c) a (Gx c, Gy c)) (scalarMult (Add c) b (Gx c, Gy c))) (Gx c, Gy c)"
    using Suc by simp
  also have "\<dots> = Add c (scalarMult (Add c) a (Gx c, Gy c))
                     (Add c (scalarMult (Add c) b (Gx c, Gy c)) (Gx c, Gy c))"
    by (rule ok_assoc[OF ok scalarMult_inGroup[OF ok] scalarMult_inGroup[OF ok] inGroup_base[OF ok]])
  finally show ?case by simp
qed

lemma scalarMult_order_times:
  assumes ok: "curveArithOk c"
  shows "scalarMult (Add c) (q * nat (N c)) (Gx c, Gy c) = infinity"
proof (induction q)
  case 0
  show ?case by simp
next
  case (Suc q)
  note ord = ok_order[OF ok]
  note neu = ok_neutral_left[OF ok inGroup_infinity]
  have "Suc q * nat (N c) = nat (N c) + q * nat (N c)" by simp
  then show ?case using scalarMult_add[OF ok, of "nat (N c)" "q * nat (N c)"] Suc ord neu
    by simp
qed

lemma scalarMult_mod_order:
  assumes ok: "curveArithOk c"
  shows "scalarMult (Add c) (a mod nat (N c)) (Gx c, Gy c) = scalarMult (Add c) a (Gx c, Gy c)"
proof -
  have neu: "\<And>p. inGroup c p \<Longrightarrow> Add c infinity p = p"
    by (rule ok_neutral_left[OF ok])
  have "a = (a div nat (N c)) * nat (N c) + a mod nat (N c)" by simp
  then have "scalarMult (Add c) a (Gx c, Gy c) =
      Add c (scalarMult (Add c) ((a div nat (N c)) * nat (N c)) (Gx c, Gy c))
            (scalarMult (Add c) (a mod nat (N c)) (Gx c, Gy c))"
    using scalarMult_add[OF ok, of "(a div nat (N c)) * nat (N c)" "a mod nat (N c)"] by simp
  then show ?thesis
    using scalarMult_order_times[OF ok] neu[OF scalarMult_inGroup[OF ok]] by simp
qed

lemma baseMult_Bytes:
  assumes ok: "curveArithOk c" and "0 \<le> x"
  shows "ScalarBaseMult c (Bytes x) = scalarMult (Add c) (nat x) (Gx c, Gy c)"
proof -
  show ?thesis using ok_baseMult[OF ok, of "Bytes x"] SetBytes_Bytes[OF assms(2)] by simp
qed

lemma baseMult_sum_mod:
  assumes ok: "curveArithOk c" and d: "0 \<le> d" and k: "0 \<le> k"
  shows "Add c (ScalarBaseMult c (Bytes d)) (ScalarBaseMult c (Bytes k)) =
         ScalarBaseMult c (Bytes ((d + k) mod N c))"
proof -
  note n = ok_N[OF ok]
  have nn: "0 \<le> (d + k) mod N c" using n by simp
  have "nat ((d + k) mod N c) = (nat d + nat k) mod nat (N c)"
    using d k n by (simp add: nat_mod_distrib nat_add_distrib)
  then have "ScalarBaseMult c (Bytes ((d + k) mod N c)) =
             scalarMult (Add c) (nat d + nat k) (Gx c, Gy c)"
    using baseMult_Bytes[OF ok nn] scalarMult_mod_order[OF ok, of "nat d + nat k"] by simp
  then show ?thesis
    using scalarMult_add[OF ok, of "nat d" "nat k"] baseMult_Bytes[OF ok d] baseMult_Bytes[OF ok k]
    by simp
qed

lemma expansionScalar_range:
  assumes "2 \<le> N c"
  shows "1 \<le> expansionScalar c e \<and> expansionScalar c e \<le> N c - 1"
proof -
  have "0 \<le> SetBytes e mod (N c - 1)" using assms by simp
  moreover have "SetBytes e mod (N c - 1) < N c - 1" using assms by simp
  ultimately show ?thesis by (simp add: expansionScalar_def)
qed

lemma reRandScalar_eq:
  "2 \<le> N c \<Longrightarrow> reRandScalar c e = Return (expansionScalar c e)"
  by (simp add: reRandScalar_def bigMod_def expansionScalar_def)
section \<open>Persistence: what a call returns and what it stores\<close>


lemma storeAndReturn_ephemeral: "storeAndReturn csp True wrap k w = ((Some k, None), w)"
  by (simp add: storeAndReturn_def)

lemma storeAndReturn_stored:
  "fst (StoreKey (ks csp) k (store w)) = None \<Longrightarrow>
   storeAndReturn csp False wrap k w =
     ((Some k, None), \<lparr>store = snd (StoreKey (ks csp) k (store w)), storeCalls = storeCalls w @ [k]\<rparr>)"
  by (cases "StoreKey (ks csp) k (store w)") (simp add: storeAndReturn_def ksStoreKey_def)

lemma storeAndReturn_failed:
  "fst (StoreKey (ks csp) k (store w)) = Some err \<Longrightarrow>
   storeAndReturn csp False wrap k w =
     ((None, Some (wrap err)), \<lparr>store = snd (StoreKey (ks csp) k (store w)), storeCalls = storeCalls w @ [k]\<rparr>)"
  by (cases "StoreKey (ks csp) k (store w)") (simp add: storeAndReturn_def ksStoreKey_def)

lemma storeAndReturn_success:
  assumes "storeAndReturn csp eph wrap k w = ((Some k', None), w')"
  shows "k' = k \<and> (eph \<longrightarrow> w' = w) \<and> (\<not> eph \<longrightarrow> storeCalls w' = storeCalls w @ [k])"
  using assms
  by (auto simp: storeAndReturn_def ksStoreKey_def split: prod.splits option.splits if_splits)

lemma KeyGen_outcome:
  assumes "KeyGen l csp (Some opts) r w = (res, w')"
  shows "(\<exists>k. KeyGenSwitch l (conf csp) opts r = Inr k \<and>
              storeAndReturn csp (genEphemeral opts) (FailedStoringKey opts) k w = (res, w'))
         \<or> (\<exists>e. res = (None, Some e) \<and> w' = w)"
  using assms by (auto simp: KeyGen_def split: sum.splits)

lemma KeyDeriv_outcome:
  assumes "KeyDeriv csp k (Some opts) w = (Return res, w')"
  shows "(\<exists>dk. storeAndReturn csp (derivEphemeral opts) (FailedStoring ''ECDSA'') dk w = (res, w'))
         \<or> (\<exists>e. res = (None, Some e) \<and> w' = w)"
  using assms
  by (auto simp: KeyDeriv_def returned_def
           split: option.splits key.splits KeyDerivOpts.splits outcome.splits sum.splits)

lemma KeyImport_direct:
  assumes "\<forall>t. opts \<noteq> X509PublicKeyImportOpts t"
    and "KeyImport l csp raw (Some opts) w = (res, w')"
  shows "(\<exists>k what. storeAndReturn csp (importEphemeral opts) (FailedStoring what) k w = (res, w'))
         \<or> (\<exists>e. res = (None, Some e) \<and> w' = w)"
  using assms
  apply (subst (asm) KeyImport.simps)
  apply (cases opts; cases raw)
  apply (auto split: sum.splits raw.splits if_splits)
  done

lemma KeyImport_outcome:
  assumes "KeyImport l csp raw (Some opts) w = (res, w')"
  shows "(\<exists>k what. storeAndReturn csp (importEphemeral opts) (FailedStoring what) k w = (res, w'))
         \<or> (\<exists>e. res = (None, Some e) \<and> w' = w)"
proof (cases "\<exists>t. opts = X509PublicKeyImportOpts t")
  case False
  then show ?thesis using KeyImport_direct[OF _ assms] by blast
next
  case True
  then obtain t where o: "opts = X509PublicKeyImportOpts t" by blast
  show ?thesis
  proof (cases raw)
    case (rawX509Certificate pk)
    show ?thesis
    proof (cases pk)
      case (rawECDSAPublicKey p)
      have "KeyImport l csp pk (Some (ECDSAGoPublicKeyImportOpts t)) w = (res, w')"
        using assms unfolding o rawX509Certificate rawECDSAPublicKey
        by (subst (asm) KeyImport.simps) simp
      from KeyImport_direct[OF _ this] show ?thesis by (simp add: o)
    next
      case (rawRSAPublicKey p)
      have "KeyImport l csp pk (Some (RSAGoPublicKeyImportOpts t)) w = (res, w')"
        using assms unfolding o rawX509Certificate rawRSAPublicKey
        by (subst (asm) KeyImport.simps) simp
      from KeyImport_direct[OF _ this] show ?thesis by (simp add: o)
    qed (use assms in \<open>simp_all add: o rawX509Certificate KeyImport.simps\<close>, auto)
  qed (use assms in \<open>simp_all add: o KeyImport.simps\<close>, auto)
qed

lemma storeAndReturn_logged:
  assumes "storeAndReturn csp eph wrap k w = (res, w')"
    and "storeCalls w' = storeCalls w @ [dk]"
    and "fst (StoreKey (ks csp) dk (store w)) = Some err"
  shows "res = (None, Some (wrap err))"
  using assms
  by (cases "StoreKey (ks csp) k (store w)")
     (auto simp: storeAndReturn_def ksStoreKey_def split: if_splits option.splits)

lemma KeyGen_small_stored:
  "KeyGen smallLib listCsp (Some (AES128KeyGenOpts False)) [] emptyWorld =
     ((Some (aesPrivateKey (replicate 16 0) False), None),
      \<lparr>store = [aesPrivateKey (replicate 16 0) False],
       storeCalls = [aesPrivateKey (replicate 16 0) False]\<rparr>)"
  by (simp add: KeyGen_def listCsp_def smallLib_def storeAndReturn_def ksStoreKey_def listStore_def
      emptyWorld_def)

lemma KeyGen_small_failed:
  "KeyGen smallLib failingCsp (Some (AES128KeyGenOpts False)) [] emptyWorld =
     ((None, Some (FailedStoringKey (AES128KeyGenOpts False) ''read-only key store'')),
      \<lparr>store = [], storeCalls = [aesPrivateKey (replicate 16 0) False]\<rparr>)"
  by (simp add: KeyGen_def failingCsp_def smallLib_def storeAndReturn_def ksStoreKey_def
      failingStore_def emptyWorld_def)


section \<open>HMAC derivation\<close>

lemma storeAndReturn_returns:
  "fst (storeAndReturn csp eph wrap k w) = (Some k', None) \<longleftrightarrow>
     k' = k \<and> (eph \<or> fst (StoreKey (ks csp) k (store w)) = None)"
  by (cases "StoreKey (ks csp) k (store w)")
     (auto simp: storeAndReturn_def ksStoreKey_def split: option.splits)

lemma hmacSum_length:
  "\<forall>m. length (hashSum h m) = hashSize h \<Longrightarrow> length (hmacSum h key msg) = hashSize h"
  by (simp add: hmacSum_def Let_def)

lemma hmacSum_small: "hmacSum smallHash [1, 2, 3] [4, 5] = [12, 210, 150, 42]"
  by code_simp

lemma smallHash_size: "\<forall>m. length (hashSum smallHash m) = hashSize smallHash"
  by (simp add: smallHash_def)

lemma KeyDeriv_truncated:
  "KeyDeriv csp (Some (aesPrivateKey aesK ex)) (Some (HMACTruncated256AESDeriveKeyOpts t arg)) w =
     (if 0 \<le> aesBitLength (conf csp) \<and>
         aesBitLength (conf csp) \<le> int (length (hmacSum (hashFunction (conf csp)) aesK arg))
      then returned (storeAndReturn csp t (FailedStoring ''ECDSA'')
             (aesPrivateKey (take (nat (aesBitLength (conf csp)))
                (hmacSum (hashFunction (conf csp)) aesK arg)) False) w)
      else (Panic ''slice bounds out of range'', w))"
  by (simp add: KeyDeriv_def sliceTo_def)

lemma KeyDeriv_full:
  "KeyDeriv csp (Some (aesPrivateKey aesK ex)) (Some (HMACDeriveKeyOpts t arg)) w =
     returned (storeAndReturn csp t (FailedStoring ''ECDSA'')
       (aesPrivateKey (hmacSum (hashFunction (conf csp)) aesK arg) True) w)"
  by (simp add: KeyDeriv_def)

lemma returned_fst: "fst (returned rw) = Return (fst rw)"
  by (simp add: returned_def)

lemma smallConf_sel:
  "conf listCsp = smallConf" "hashFunction smallConf = smallHash" "aesBitLength smallConf = 2"
  "hashSize smallHash = 4"
  by (simp_all add: listCsp_def smallConf_def smallHash_def)

section \<open>EC re-randomization\<close>

lemma reRandPublicKey_eq:
  assumes "2 \<le> N (Curve pub)"
  shows "reRandPublicKey pub e =
     Return (if IsOnCurve (Curve pub) (derivedPoint pub e) then Inr (derivedPublicKey pub e)
             else Inl FailedIsOnCurve)"
  using assms
  by (simp add: reRandPublicKey_def reRandScalar_eq derivedPoint_def derivedPublicKey_def Let_def)

lemma reRandPrivateKey_eq:
  assumes "2 \<le> N (Curve (PublicKey priv))"
  shows "reRandPrivateKey priv e =
     Return (if IsOnCurve (Curve (PublicKey priv)) (derivedPoint (PublicKey priv) e)
             then Inr (derivedPrivateKey priv e) else Inl FailedIsOnCurve)"
  using assms
  by (simp add: reRandPrivateKey_def reRandScalar_eq bigMod_def derivedPoint_def
      derivedPublicKey_def derivedPrivateKey_def Let_def)

lemma KeyDeriv_reRand_public:
  assumes "2 \<le> N (Curve pub)"
  shows "KeyDeriv csp (Some (ecdsaPublicKey pub)) (Some (ECDSAReRandKeyOpts t e)) w =
     (if IsOnCurve (Curve pub) (derivedPoint pub e)
      then returned (storeAndReturn csp t (FailedStoring ''ECDSA'')
             (ecdsaPublicKey (derivedPublicKey pub e)) w)
      else (Return (None, Some FailedIsOnCurve), w))"
  by (simp add: KeyDeriv_def reRandPublicKey_eq[OF assms])

lemma KeyDeriv_reRand_private:
  assumes "2 \<le> N (Curve (PublicKey priv))"
  shows "KeyDeriv csp (Some (ecdsaPrivateKey priv)) (Some (ECDSAReRandKeyOpts t e)) w =
     (if IsOnCurve (Curve (PublicKey priv)) (derivedPoint (PublicKey priv) e)
      then returned (storeAndReturn csp t (FailedStoring ''ECDSA'')
             (ecdsaPrivateKey (derivedPrivateKey priv e)) w)
      else (Return (None, Some FailedIsOnCurve), w))"
  by (simp add: KeyDeriv_def reRandPrivateKey_eq[OF assms])


lemma small_sel:
  "PublicKey smallPrivateKey = smallPublicKey" "D smallPrivateKey = 3"
  "Curve smallPublicKey = smallCurve" "X smallPublicKey = 0" "Y smallPublicKey = 1"
  "N smallCurve = 7" "IsOnCurve smallCurve = smallIsOnCurve" "Add smallCurve = smallAdd"
  by (simp_all add: smallPrivateKey_def smallPublicKey_def smallCurve_def)

lemma small_scalars:
  "expansionScalar smallCurve [5] = 6" "expansionScalar smallCurve [3] = 4"
  by (simp_all add: expansionScalar_def smallCurve_def SetBytes_def)

lemma small_bytes: "Bytes 6 = [6]" "Bytes 4 = [4]" "Bytes 3 = [3]" "Bytes 2 = [2]"
  by (simp_all add: Bytes_def natBytes.simps)

lemma small_multiples:
  "ScalarBaseMult smallCurve [2] = (3, 3)" "ScalarBaseMult smallCurve [3] = (0, 1)"
  "ScalarBaseMult smallCurve [4] = (0, 4)" "ScalarBaseMult smallCurve [6] = (1, 3)"
  by code_simp+

lemma small_sums: "smallAdd (0, 1) (1, 3) = (3, 3)" "smallAdd (0, 1) (0, 4) = (0, 0)"
  by code_simp+

lemma small_on:
  "smallIsOnCurve (3, 3)" "smallIsOnCurve (0, 1)" "smallIsOnCurve (0, 4)"
  "\<not> smallIsOnCurve (0, 0)"
  by (simp_all add: smallIsOnCurve_def)

lemma small_derived:
  "derivedPoint smallPublicKey [5] = (3, 3)" "derivedPoint smallPublicKey [3] = (0, 0)"
  by (simp_all add: derivedPoint_def small_sel small_scalars small_bytes small_multiples
      small_sums)

lemma small_keyPair: "keyPairOk smallPrivateKey"
  by (simp add: keyPairOk_def small_sel small_bytes small_multiples)


section \<open>The claims\<close>

text \<open>
  Claim C1, as the code has it. For \<open>KeyGen\<close>, \<open>KeyDeriv\<close> and \<open>KeyImport\<close>: when
  the call has computed a key and handed it to \<open>StoreKey\<close> (the log of calls grew by
  that key) and \<open>StoreKey\<close> fails, the call reports the persistence error and returns no
  key: the first component of the result is nil. For \<open>KeyGen\<close> also in terms of its
  switch: when the switch has produced a key, the options are not ephemeral and
  \<open>StoreKey\<close> fails on that key, the result is nil with the persistence error.
\<close>

theorem C1_store_failure_returns_no_key:
  "(KeyGen l csp (Some gopts) r w1 = (res1, w1') \<longrightarrow>
      storeCalls w1' = storeCalls w1 @ [k1] \<longrightarrow>
      fst (StoreKey (ks csp) k1 (store w1)) = Some err1 \<longrightarrow>
      res1 = (None, Some (FailedStoringKey gopts err1))) \<and>
   (KeyDeriv csp k0 (Some dopts) w2 = (Return res2, w2') \<longrightarrow>
      storeCalls w2' = storeCalls w2 @ [k2] \<longrightarrow>
      fst (StoreKey (ks csp) k2 (store w2)) = Some err2 \<longrightarrow>
      res2 = (None, Some (FailedStoring ''ECDSA'' err2))) \<and>
   (KeyImport l csp raw (Some iopts) w3 = (res3, w3') \<longrightarrow>
      storeCalls w3' = storeCalls w3 @ [k3] \<longrightarrow>
      fst (StoreKey (ks csp) k3 (store w3)) = Some err3 \<longrightarrow>
      (\<exists>what. res3 = (None, Some (FailedStoring what err3)))) \<and>
   (KeyGenSwitch l (conf csp) gopts4 r4 = Inr k4 \<longrightarrow> \<not> genEphemeral gopts4 \<longrightarrow>
      fst (StoreKey (ks csp) k4 (store w4)) = Some err4 \<longrightarrow>
      fst (KeyGen l csp (Some gopts4) r4 w4) = (None, Some (FailedStoringKey gopts4 err4)))"
proof (intro conjI impI)
  assume a: "KeyGen l csp (Some gopts) r w1 = (res1, w1')"
    and b: "storeCalls w1' = storeCalls w1 @ [k1]"
    and c: "fst (StoreKey (ks csp) k1 (store w1)) = Some err1"
  from KeyGen_outcome[OF a] b show "res1 = (None, Some (FailedStoringKey gopts err1))"
    using storeAndReturn_logged[OF _ b c] by (elim disjE exE conjE) (blast, simp)
next
  assume a: "KeyDeriv csp k0 (Some dopts) w2 = (Return res2, w2')"
    and b: "storeCalls w2' = storeCalls w2 @ [k2]"
    and c: "fst (StoreKey (ks csp) k2 (store w2)) = Some err2"
  from KeyDeriv_outcome[OF a] b show "res2 = (None, Some (FailedStoring ''ECDSA'' err2))"
    using storeAndReturn_logged[OF _ b c] by (elim disjE exE conjE) (blast, simp)
next
  assume a: "KeyImport l csp raw (Some iopts) w3 = (res3, w3')"
    and b: "storeCalls w3' = storeCalls w3 @ [k3]"
    and c: "fst (StoreKey (ks csp) k3 (store w3)) = Some err3"
  from KeyImport_outcome[OF a] b show "\<exists>what. res3 = (None, Some (FailedStoring what err3))"
    using storeAndReturn_logged[OF _ b c] by (elim disjE exE conjE) (blast, simp)
next
  assume "KeyGenSwitch l (conf csp) gopts4 r4 = Inr k4"
    and "\<not> genEphemeral gopts4" and "fst (StoreKey (ks csp) k4 (store w4)) = Some err4"
  then show "fst (KeyGen l csp (Some gopts4) r4 w4) = (None, Some (FailedStoringKey gopts4 err4))"
    by (simp add: KeyGen_def storeAndReturn_failed)
qed


theorem C1_store_failure_witness:
  "KeyGen smallLib failingCsp (Some (AES128KeyGenOpts False)) [] emptyWorld =
     ((None, Some (FailedStoringKey (AES128KeyGenOpts False) ''read-only key store'')),
      \<lparr>store = [], storeCalls = [aesPrivateKey (replicate 16 0) False]\<rparr>) \<and>
   fst (StoreKey (ks failingCsp) (aesPrivateKey (replicate 16 0) False) (store emptyWorld)) =
     Some ''read-only key store''"
  using C1_store_failure_returns_no_key[of smallLib failingCsp "AES128KeyGenOpts False" "[]"
      emptyWorld _ "\<lparr>store = [], storeCalls = [aesPrivateKey (replicate 16 0) False]\<rparr>"
      "aesPrivateKey (replicate 16 0) False" "''read-only key store''"]
    KeyGen_small_failed
  by (simp add: failingCsp_def failingStore_def)

text \<open>
  Claim C1 as stated (the computed key is still returned to the caller) fails: with a key
  store whose \<open>StoreKey\<close> fails, \<open>KeyGen\<close> computes a key and returns nil with the
  error.
\<close>

theorem C1_counterexample:
  "KeyGenSwitch smallLib (conf failingCsp) (AES128KeyGenOpts False) [] =
     Inr (aesPrivateKey (replicate 16 0) False) \<and>
   fst (StoreKey (ks failingCsp) (aesPrivateKey (replicate 16 0) False) (store emptyWorld)) =
     Some ''read-only key store'' \<and>
   fst (fst (KeyGen smallLib failingCsp (Some (AES128KeyGenOpts False)) [] emptyWorld)) = None"
proof (intro conjI)
  show "KeyGenSwitch smallLib (conf failingCsp) (AES128KeyGenOpts False) [] =
     Inr (aesPrivateKey (replicate 16 0) False)"
    by (simp add: smallLib_def)
  show "fst (StoreKey (ks failingCsp) (aesPrivateKey (replicate 16 0) False) (store emptyWorld)) =
     Some ''read-only key store''"
    by (simp add: failingCsp_def failingStore_def)
  show "fst (fst (KeyGen smallLib failingCsp (Some (AES128KeyGenOpts False)) [] emptyWorld)) = None"
    by (simp add: KeyGen_small_failed)
qed

text \<open>
  Claim C2. For an EC private key with scalar \<open>d\<close> on a curve of group order
  \<open>n \<ge> 2\<close> and an expansion value \<open>e\<close>, \<open>KeyDeriv\<close> with the re-randomization
  options computes \<open>k = (e mod (n - 1)) + 1\<close>, so \<open>1 \<le> k \<le> n - 1\<close>, passes exactly
  \<open>k\<close> to the scalar multiplication of the base point, and the key it returns is exactly
  the one with scalar \<open>d' = (d + k) mod n\<close> and public point \<open>Q' = Q + k\<cdot>G\<close>; it
  returns that key when the point passes the curve check and the options are ephemeral or
  \<open>StoreKey\<close> accepts the key.
\<close>

theorem C2_reRand_private:
  assumes n: "2 \<le> N (Curve (PublicKey priv))"
  shows
  "1 \<le> expansionScalar (Curve (PublicKey priv)) e \<and>
   expansionScalar (Curve (PublicKey priv)) e \<le> N (Curve (PublicKey priv)) - 1 \<and>
   reRandScalar (Curve (PublicKey priv)) e = Return (expansionScalar (Curve (PublicKey priv)) e) \<and>
   SetBytes (Bytes (expansionScalar (Curve (PublicKey priv)) e)) =
     expansionScalar (Curve (PublicKey priv)) e \<and>
   (fst (KeyDeriv csp (Some (ecdsaPrivateKey priv)) (Some (ECDSAReRandKeyOpts t e)) w) =
      Return (Some dk, None)
    \<longleftrightarrow>
    dk = ecdsaPrivateKey
           \<lparr>PublicKey =
              \<lparr>Curve = Curve (PublicKey priv),
               X = fst (Add (Curve (PublicKey priv)) (X (PublicKey priv), Y (PublicKey priv))
                          (ScalarBaseMult (Curve (PublicKey priv))
                             (Bytes (expansionScalar (Curve (PublicKey priv)) e)))),
               Y = snd (Add (Curve (PublicKey priv)) (X (PublicKey priv), Y (PublicKey priv))
                          (ScalarBaseMult (Curve (PublicKey priv))
                             (Bytes (expansionScalar (Curve (PublicKey priv)) e))))\<rparr>,
            D = (D priv + expansionScalar (Curve (PublicKey priv)) e)
                  mod N (Curve (PublicKey priv))\<rparr> \<and>
    IsOnCurve (Curve (PublicKey priv))
      (Add (Curve (PublicKey priv)) (X (PublicKey priv), Y (PublicKey priv))
         (ScalarBaseMult (Curve (PublicKey priv))
            (Bytes (expansionScalar (Curve (PublicKey priv)) e)))) \<and>
    (t \<or> fst (StoreKey (ks csp) dk (store w)) = None))"
proof -
  note r = expansionScalar_range[OF n, of e]
  have b: "SetBytes (Bytes (expansionScalar (Curve (PublicKey priv)) e)) =
     expansionScalar (Curve (PublicKey priv)) e"
    using r by (simp add: SetBytes_Bytes)
  have k: "fst (KeyDeriv csp (Some (ecdsaPrivateKey priv)) (Some (ECDSAReRandKeyOpts t e)) w) =
      Return (Some dk, None) \<longleftrightarrow>
      dk = ecdsaPrivateKey (derivedPrivateKey priv e) \<and>
      IsOnCurve (Curve (PublicKey priv)) (derivedPoint (PublicKey priv) e) \<and>
      (t \<or> fst (StoreKey (ks csp) dk (store w)) = None)"
    by (auto simp: KeyDeriv_reRand_private[OF n] returned_fst storeAndReturn_returns)
  show ?thesis
    using r b k reRandScalar_eq[OF n, of e]
    by (simp add: derivedPrivateKey_def derivedPublicKey_def derivedPoint_def)
qed

theorem C2_reRand_private_witness:
  "2 \<le> N (Curve (PublicKey smallPrivateKey)) \<and>
   expansionScalar (Curve (PublicKey smallPrivateKey)) [5] = 6 \<and>
   fst (KeyDeriv listCsp (Some (ecdsaPrivateKey smallPrivateKey))
          (Some (ECDSAReRandKeyOpts True [5])) emptyWorld) =
     Return (Some (ecdsaPrivateKey \<lparr>PublicKey = \<lparr>Curve = smallCurve, X = 3, Y = 3\<rparr>, D = 2\<rparr>),
             None)"
  using C2_reRand_private[of smallPrivateKey "[5]" listCsp True emptyWorld
          "ecdsaPrivateKey \<lparr>PublicKey = \<lparr>Curve = smallCurve, X = 3, Y = 3\<rparr>, D = 2\<rparr>"]
  by (simp add: small_sel small_scalars small_bytes small_multiples small_sums small_on)

text \<open>
  Claim C3. Under correct curve arithmetic, for an EC private key whose public point is
  \<open>d\<cdot>G\<close> and an expansion value \<open>e\<close>: the key returned by re-randomizing the private
  key has a public point equal to \<open>d'\<cdot>G\<close> for its scalar \<open>d'\<close> (with
  \<open>0 \<le> d' < n\<close>), and re-randomizing the corresponding public key with the same
  \<open>e\<close> returns the public part of that key.
\<close>

theorem C3_reRand_consistent:
  assumes ok: "curveArithOk (Curve (PublicKey priv))"
    and kp: "keyPairOk priv"
    and ret: "fst (KeyDeriv csp (Some (ecdsaPrivateKey priv)) (Some (ECDSAReRandKeyOpts t e)) w) =
                Return (Some dk, None)"
  shows "\<exists>priv'. dk = ecdsaPrivateKey priv' \<and>
           (X (PublicKey priv'), Y (PublicKey priv')) =
             ScalarBaseMult (Curve (PublicKey priv')) (Bytes (D priv')) \<and>
           0 \<le> D priv' \<and> D priv' < N (Curve (PublicKey priv')) \<and>
           KeyDeriv csp' (Some (ecdsaPublicKey (PublicKey priv)))
               (Some (ECDSAReRandKeyOpts True e)) w' =
             (Return (Some (ecdsaPublicKey (PublicKey priv')), None), w') \<and>
           (\<forall>dk'. fst (KeyDeriv csp' (Some (ecdsaPublicKey (PublicKey priv)))
                          (Some (ECDSAReRandKeyOpts t' e)) w') = Return (Some dk', None) \<longrightarrow>
                  dk' = ecdsaPublicKey (PublicKey priv'))"
proof -
  let ?c = "Curve (PublicKey priv)"
  let ?k = "expansionScalar ?c e"
  note n = ok_N[OF ok]
  from ret have dk: "dk = ecdsaPrivateKey (derivedPrivateKey priv e)"
    and on: "IsOnCurve ?c (derivedPoint (PublicKey priv) e)"
    by (auto simp: KeyDeriv_reRand_private[OF n] returned_fst storeAndReturn_returns
             split: if_splits)
  have k0: "0 \<le> ?k" using expansionScalar_range[OF n, of e] by simp
  from kp have d0: "0 \<le> D priv"
    and q: "(X (PublicKey priv), Y (PublicKey priv)) = ScalarBaseMult ?c (Bytes (D priv))"
    by (simp_all add: keyPairOk_def)
  have pt: "derivedPoint (PublicKey priv) e = ScalarBaseMult ?c (Bytes ((D priv + ?k) mod N ?c))"
    unfolding derivedPoint_def q by (rule baseMult_sum_mod[OF ok d0 k0])
  have rng: "0 \<le> (D priv + ?k) mod N ?c" "(D priv + ?k) mod N ?c < N ?c"
    using n by simp_all
  show ?thesis
  proof (intro exI[of _ "derivedPrivateKey priv e"] conjI allI impI)
    show "dk = ecdsaPrivateKey (derivedPrivateKey priv e)" by (rule dk)
    show "(X (PublicKey (derivedPrivateKey priv e)), Y (PublicKey (derivedPrivateKey priv e))) =
            ScalarBaseMult (Curve (PublicKey (derivedPrivateKey priv e)))
              (Bytes (D (derivedPrivateKey priv e)))"
      using pt by (simp add: derivedPrivateKey_def derivedPublicKey_def)
    show "0 \<le> D (derivedPrivateKey priv e)"
      using rng by (simp add: derivedPrivateKey_def)
    show "D (derivedPrivateKey priv e) < N (Curve (PublicKey (derivedPrivateKey priv e)))"
      using rng by (simp add: derivedPrivateKey_def derivedPublicKey_def)
    show "KeyDeriv csp' (Some (ecdsaPublicKey (PublicKey priv)))
               (Some (ECDSAReRandKeyOpts True e)) w' =
             (Return (Some (ecdsaPublicKey (PublicKey (derivedPrivateKey priv e))), None), w')"
      using on
      by (simp add: KeyDeriv_reRand_public[OF n] storeAndReturn_ephemeral returned_def
          derivedPrivateKey_def)
  next
    fix dk'
    assume "fst (KeyDeriv csp' (Some (ecdsaPublicKey (PublicKey priv)))
                   (Some (ECDSAReRandKeyOpts t' e)) w') = Return (Some dk', None)"
    then show "dk' = ecdsaPublicKey (PublicKey (derivedPrivateKey priv e))"
      by (auto simp: KeyDeriv_reRand_public[OF n] returned_fst storeAndReturn_returns
            derivedPrivateKey_def split: if_splits)
  qed
qed

theorem C3_reRand_consistent_witness:
  "curveArithOk (Curve (PublicKey smallPrivateKey)) \<and> keyPairOk smallPrivateKey \<and>
   fst (KeyDeriv listCsp (Some (ecdsaPrivateKey smallPrivateKey))
          (Some (ECDSAReRandKeyOpts True [5])) emptyWorld) =
     Return (Some (ecdsaPrivateKey \<lparr>PublicKey = \<lparr>Curve = smallCurve, X = 3, Y = 3\<rparr>, D = 2\<rparr>),
             None) \<and>
   ScalarBaseMult smallCurve (Bytes 2) = (3, 3) \<and>
   KeyDeriv listCsp (Some (ecdsaPublicKey (PublicKey smallPrivateKey)))
       (Some (ECDSAReRandKeyOpts True [5])) emptyWorld =
     (Return (Some (ecdsaPublicKey \<lparr>Curve = smallCurve, X = 3, Y = 3\<rparr>), None), emptyWorld)"
proof -
  have ok: "curveArithOk (Curve (PublicKey smallPrivateKey))"
    by (simp add: small_sel smallCurve_ok)
  have n: "2 \<le> N (Curve (PublicKey smallPrivateKey))" by (simp add: small_sel)
  have ret: "fst (KeyDeriv listCsp (Some (ecdsaPrivateKey smallPrivateKey))
          (Some (ECDSAReRandKeyOpts True [5])) emptyWorld) =
     Return (Some (ecdsaPrivateKey \<lparr>PublicKey = \<lparr>Curve = smallCurve, X = 3, Y = 3\<rparr>, D = 2\<rparr>),
             None)"
    by (simp add: KeyDeriv_reRand_private[OF n] small_sel small_derived small_on
        storeAndReturn_ephemeral returned_def derivedPrivateKey_def derivedPublicKey_def
        small_scalars)
  have pub: "KeyDeriv listCsp (Some (ecdsaPublicKey (PublicKey smallPrivateKey)))
       (Some (ECDSAReRandKeyOpts True [5])) emptyWorld =
     (Return (Some (ecdsaPublicKey \<lparr>Curve = smallCurve, X = 3, Y = 3\<rparr>), None), emptyWorld)"
    using n
    by (simp add: KeyDeriv_reRand_public small_sel small_derived small_on
        storeAndReturn_ephemeral returned_def derivedPublicKey_def)
  have sbm: "ScalarBaseMult smallCurve (Bytes 2) = (3, 3)"
    by (simp add: small_bytes small_multiples)
  from C3_reRand_consistent[OF ok small_keyPair ret, of listCsp emptyWorld True]
  show ?thesis using ok ret pub sbm small_keyPair
    by blast
qed




text \<open>
  Claim C5. For a hash function whose digests all have its \<open>Size()\<close>: \<open>KeyDeriv\<close> on
  a symmetric key with the "truncated" HMAC variant returns exactly the key whose material
  is the first \<open>aesBitLength\<close> bytes of the HMAC of the argument under the key material
  (exactly that many bytes), marked non-exportable; with the "full" variant it returns
  exactly the key whose material is the whole MAC, of the hash's output length, marked
  exportable. The key is returned when the options are ephemeral or \<open>StoreKey\<close> accepts
  it.
\<close>

theorem C5_hmac_derivation:
  assumes size: "\<forall>m. length (hashSum (hashFunction (conf csp)) m) = hashSize (hashFunction (conf csp))"
  shows
  "(0 \<le> aesBitLength (conf csp) \<longrightarrow>
    aesBitLength (conf csp) \<le> int (hashSize (hashFunction (conf csp))) \<longrightarrow>
      (fst (KeyDeriv csp (Some (aesPrivateKey aesK ex))
              (Some (HMACTruncated256AESDeriveKeyOpts t1 arg)) w1) = Return (Some dk1, None)
       \<longleftrightarrow>
       dk1 = aesPrivateKey (take (nat (aesBitLength (conf csp)))
                              (hmacSum (hashFunction (conf csp)) aesK arg)) False \<and>
       (t1 \<or> fst (StoreKey (ks csp) dk1 (store w1)) = None)) \<and>
      length (take (nat (aesBitLength (conf csp)))
                (hmacSum (hashFunction (conf csp)) aesK arg)) = nat (aesBitLength (conf csp))) \<and>
   (fst (KeyDeriv csp (Some (aesPrivateKey aesK ex)) (Some (HMACDeriveKeyOpts t2 arg)) w2) =
      Return (Some dk2, None)
    \<longleftrightarrow>
    dk2 = aesPrivateKey (hmacSum (hashFunction (conf csp)) aesK arg) True \<and>
    (t2 \<or> fst (StoreKey (ks csp) dk2 (store w2)) = None)) \<and>
   length (hmacSum (hashFunction (conf csp)) aesK arg) = hashSize (hashFunction (conf csp))"
proof -
  note len = hmacSum_length[OF size]
  show ?thesis
    by (auto simp: KeyDeriv_truncated KeyDeriv_full returned_fst storeAndReturn_returns len)
qed

theorem C5_hmac_derivation_witness:
  "(\<forall>m. length (hashSum (hashFunction (conf listCsp)) m) = hashSize (hashFunction (conf listCsp))) \<and>
   fst (KeyDeriv listCsp (Some (aesPrivateKey [1, 2, 3] False))
          (Some (HMACTruncated256AESDeriveKeyOpts True [4, 5])) emptyWorld) =
     Return (Some (aesPrivateKey [12, 210] False), None) \<and>
   fst (KeyDeriv listCsp (Some (aesPrivateKey [1, 2, 3] False))
          (Some (HMACDeriveKeyOpts True [4, 5])) emptyWorld) =
     Return (Some (aesPrivateKey [12, 210, 150, 42] True), None)"
  using C5_hmac_derivation[of listCsp "[1, 2, 3]" False True "[4, 5]" emptyWorld
          "aesPrivateKey [12, 210] False" True emptyWorld
          "aesPrivateKey [12, 210, 150, 42] True"]
  by (simp add: smallConf_sel hmacSum_small smallHash_size)

text \<open>
  Claim C6. For every successful \<open>KeyGen\<close>, \<open>KeyDeriv\<close> or \<open>KeyImport\<close> call: if the
  ephemeral flag of the options is true, \<open>StoreKey\<close> is never invoked (the log of calls is
  unchanged); if the flag is false, \<open>StoreKey\<close> is invoked exactly once, with the key
  that the call returns.
\<close>

theorem C6_store_calls:
  "(KeyGen l csp (Some gopts) r w1 = ((Some k1, None), w1') \<longrightarrow>
      storeCalls w1' = (if genEphemeral gopts then storeCalls w1 else storeCalls w1 @ [k1])) \<and>
   (KeyDeriv csp k0 (Some dopts) w2 = (Return (Some k2, None), w2') \<longrightarrow>
      storeCalls w2' = (if derivEphemeral dopts then storeCalls w2 else storeCalls w2 @ [k2])) \<and>
   (KeyImport l csp raw (Some iopts) w3 = ((Some k3, None), w3') \<longrightarrow>
      storeCalls w3' = (if importEphemeral iopts then storeCalls w3 else storeCalls w3 @ [k3]))"
proof (intro conjI impI)
  assume "KeyGen l csp (Some gopts) r w1 = ((Some k1, None), w1')"
  from KeyGen_outcome[OF this]
  show "storeCalls w1' = (if genEphemeral gopts then storeCalls w1 else storeCalls w1 @ [k1])"
    using storeAndReturn_success by fastforce
next
  assume "KeyDeriv csp k0 (Some dopts) w2 = (Return (Some k2, None), w2')"
  from KeyDeriv_outcome[OF this]
  show "storeCalls w2' = (if derivEphemeral dopts then storeCalls w2 else storeCalls w2 @ [k2])"
    using storeAndReturn_success by fastforce
next
  assume "KeyImport l csp raw (Some iopts) w3 = ((Some k3, None), w3')"
  from KeyImport_outcome[OF this]
  show "storeCalls w3' = (if importEphemeral iopts then storeCalls w3 else storeCalls w3 @ [k3])"
    using storeAndReturn_success by fastforce
qed


theorem C6_store_calls_witness:
  "KeyGen smallLib listCsp (Some (AES128KeyGenOpts False)) [] emptyWorld =
     ((Some (aesPrivateKey (replicate 16 0) False), None),
      \<lparr>store = [aesPrivateKey (replicate 16 0) False],
       storeCalls = [aesPrivateKey (replicate 16 0) False]\<rparr>) \<and>
   storeCalls \<lparr>store = [aesPrivateKey (replicate 16 0) False],
               storeCalls = [aesPrivateKey (replicate 16 0) False]\<rparr> =
     storeCalls emptyWorld @ [aesPrivateKey (replicate 16 0) False]"
  using C6_store_calls[of smallLib listCsp "AES128KeyGenOpts False" "[]" emptyWorld
      "aesPrivateKey (replicate 16 0) False"
      "\<lparr>store = [aesPrivateKey (replicate 16 0) False],
        storeCalls = [aesPrivateKey (replicate 16 0) False]\<rparr>"]
    KeyGen_small_stored
  by simp

text \<open>
  Claim C7, as the code has it. \<open>KeyDeriv\<close> returns the invalid-argument error for a
  nil key; it returns the invalid-argument error for nil options when the key is an EC
  public, EC private or symmetric key (the nil check sits inside these three branches);
  for a key of any other variant it returns the unsupported-operation error naming the
  key, whatever the options are, nil included; and for a key of one of the three variants
  with options that are not a supported combination it returns the unsupported-operation
  error naming the options. No such call touches the key store.
\<close>

theorem C7_dispatch_errors:
  "KeyDeriv csp None opts w = (Return (None, Some InvalidKeyNil), w) \<and>
   (derivableKey k1 \<longrightarrow>
      KeyDeriv csp (Some k1) None w = (Return (None, Some InvalidOptsNil), w)) \<and>
   (\<not> derivableKey k2 \<longrightarrow>
      KeyDeriv csp (Some k2) opts w = (Return (None, Some (KeyTypeNotRecognized k2)), w)) \<and>
   (derivableKey k3 \<longrightarrow> \<not> supportedDerivation k3 opts3 \<longrightarrow>
      KeyDeriv csp (Some k3) (Some opts3) w =
        (Return (None, Some (UnrecognizedKeyDerivOpts opts3)), w))"
proof (intro conjI impI)
  show "KeyDeriv csp None opts w = (Return (None, Some InvalidKeyNil), w)"
    by (simp add: KeyDeriv_def)
next
  assume "derivableKey k1"
  then show "KeyDeriv csp (Some k1) None w = (Return (None, Some InvalidOptsNil), w)"
    by (cases k1) (simp_all add: KeyDeriv_def derivableKey_def)
next
  assume "\<not> derivableKey k2"
  then show "KeyDeriv csp (Some k2) opts w = (Return (None, Some (KeyTypeNotRecognized k2)), w)"
    by (cases k2) (simp_all add: KeyDeriv_def derivableKey_def)
next
  assume "derivableKey k3" and "\<not> supportedDerivation k3 opts3"
  then show "KeyDeriv csp (Some k3) (Some opts3) w =
        (Return (None, Some (UnrecognizedKeyDerivOpts opts3)), w)"
    by (cases k3; cases opts3) (simp_all add: KeyDeriv_def derivableKey_def supportedDerivation_def)
qed

theorem C7_dispatch_errors_witness:
  "derivableKey (aesPrivateKey [1, 2] False) \<and>
   KeyDeriv listCsp (Some (aesPrivateKey [1, 2] False)) None emptyWorld =
     (Return (None, Some InvalidOptsNil), emptyWorld) \<and>
   \<not> derivableKey (otherKey ''pkcs11'') \<and>
   KeyDeriv listCsp (Some (otherKey ''pkcs11'')) (Some (HMACDeriveKeyOpts True [])) emptyWorld =
     (Return (None, Some (KeyTypeNotRecognized (otherKey ''pkcs11''))), emptyWorld) \<and>
   \<not> supportedDerivation (aesPrivateKey [1, 2] False) (ECDSAReRandKeyOpts True [7]) \<and>
   KeyDeriv listCsp (Some (aesPrivateKey [1, 2] False)) (Some (ECDSAReRandKeyOpts True [7]))
       emptyWorld =
     (Return (None, Some (UnrecognizedKeyDerivOpts (ECDSAReRandKeyOpts True [7]))), emptyWorld)"
  using C7_dispatch_errors[of listCsp "Some (HMACDeriveKeyOpts True [])" emptyWorld
      "aesPrivateKey [1, 2] False" "otherKey ''pkcs11''" "aesPrivateKey [1, 2] False"
      "ECDSAReRandKeyOpts True [7]"]
  by (simp add: derivableKey_def supportedDerivation_def)

text \<open>
  Claim C7 as stated (an invalid-argument error whenever the options value is nil) fails:
  for an RSA public key and nil options the error is "Key type not recognized".
\<close>

theorem C7_counterexample:
  "KeyDeriv listCsp (Some (rsaPublicKey (rsa_PublicKey 3233 17))) None emptyWorld =
     (Return (None, Some (KeyTypeNotRecognized (rsaPublicKey (rsa_PublicKey 3233 17)))),
      emptyWorld) \<and>
   KeyTypeNotRecognized (rsaPublicKey (rsa_PublicKey 3233 17)) \<noteq> InvalidOptsNil"
  by (simp add: KeyDeriv_def)



text \<open>
  Claim C9, as the code has it. A symmetric key that \<open>KeyImport\<close> returns for the
  256-bit symmetric import variant or the generic HMAC-key import variant holds the raw
  bytes and has its exportable flag set to false: it is not exportable.
\<close>

theorem C9_imported_not_exportable:
  assumes "iopts = AES256ImportKeyOpts t \<or> iopts = HMACImportKeyOpts t"
    and "fst (fst (KeyImport l csp raw (Some iopts) w)) = Some k"
  shows "(\<exists>b. raw = rawBytes b \<and> k = aesPrivateKey b False) \<and> \<not> exportable k"
  using assms
  by (cases raw)
     (auto simp: KeyImport.simps storeAndReturn_def ksStoreKey_def
           split: if_splits prod.splits option.splits)

theorem C9_imported_not_exportable_witness:
  "fst (fst (KeyImport smallLib listCsp (rawBytes [1, 2, 3]) (Some (HMACImportKeyOpts True))
               emptyWorld)) =
     Some (aesPrivateKey [1, 2, 3] False) \<and>
   \<not> exportable (aesPrivateKey [1, 2, 3] False)"
  using C9_imported_not_exportable[of "HMACImportKeyOpts True" True smallLib listCsp
          "rawBytes [1, 2, 3]" emptyWorld "aesPrivateKey [1, 2, 3] False"]
  by (simp add: KeyImport.simps storeAndReturn_ephemeral)

text \<open>
  Claim C9 as stated (the imported keys are exportable) fails on both variants.
\<close>

theorem C9_counterexample:
  "KeyImport smallLib listCsp (rawBytes (replicate 32 7)) (Some (AES256ImportKeyOpts True))
       emptyWorld =
     ((Some (aesPrivateKey (replicate 32 7) False), None), emptyWorld) \<and>
   KeyImport smallLib listCsp (rawBytes [1, 2, 3]) (Some (HMACImportKeyOpts True)) emptyWorld =
     ((Some (aesPrivateKey [1, 2, 3] False), None), emptyWorld) \<and>
   \<not> exportable (aesPrivateKey (replicate 32 7) False) \<and>
   \<not> exportable (aesPrivateKey [1, 2, 3] False)"
  by (simp add: KeyImport.simps storeAndReturn_ephemeral)




end
